theory Spec2Isabelle
  imports Main "HOL-Library.AList"
begin

section \<open>Values, errors and events\<close>

text \<open>
  The reactive engine of \<^verbatim>\<open>src/resin.ts\<close> keeps its state in module-level variables
  (\<^verbatim>\<open>effectStack\<close>, \<^verbatim>\<open>batchDepth\<close>, \<^verbatim>\<open>pendingEffects\<close>) and in the variables closed
  over by every object that \<^verbatim>\<open>resin()\<close> returns. The model gathers all of them in one
  record, the world, and passes it through every operation. Objects with an identity
  (resin instances, effect functions, event handlers, arrays, handler sets) are named by
  natural numbers; JavaScript's \<^verbatim>\<open>===\<close> on them is equality of these names.
  Numbers are modelled as integers (no \<^verbatim>\<open>NaN\<close>), console output is not modelled.
\<close>

type_synonym sid = nat
type_synonym eid = nat
type_synonym hid = nat
type_synonym ref = nat

datatype val = Undefined | Null | Bool bool | Num int | Str string | Ref ref | Function nat

datatype obj = Array "val list" | Object "(string \<times> val) list"

text \<open>
  A thrown value: \<^verbatim>\<open>new Error(message)\<close>, or the error built by
  \<^verbatim>\<open>createResinError(message, resinName, value)\<close>.
\<close>

datatype exn = Error string | ResinError string "string option" exn

definition createResinError :: "string \<Rightarrow> string option \<Rightarrow> exn \<Rightarrow> exn" where
  "createResinError message resinName v = ResinError message resinName v"

datatype evtype = EvInit | EvChange | EvDispose | EvError

text \<open>The payloads of \<^verbatim>\<open>ResinEvent\<close>; a change event carries \<^verbatim>\<open>value\<close> and \<^verbatim>\<open>oldValue\<close>.\<close>

datatype event =
    InitEvent val
  | ChangeEvent val val
  | DisposeEvent val
  | ErrorEvent exn

fun typeOf :: "event \<Rightarrow> evtype" where
  "typeOf (InitEvent v) = EvInit"
| "typeOf (ChangeEvent v old) = EvChange"
| "typeOf (DisposeEvent v) = EvDispose"
| "typeOf (ErrorEvent e) = EvError"

section \<open>JavaScript sets\<close>

text \<open>
  A \<^verbatim>\<open>Set\<close> keeps its elements in insertion order. Deleting an element leaves an empty
  slot behind and \<^verbatim>\<open>clear\<close> empties every slot, so that a \<^verbatim>\<open>forEach\<close> that is under way
  sees elements added meanwhile and skips elements deleted meanwhile.
\<close>

type_synonym 'a jsset = "'a option list"

definition Set_has :: "'a jsset \<Rightarrow> 'a \<Rightarrow> bool" where
  "Set_has xs e = (Some e \<in> set xs)"

definition Set_add :: "'a jsset \<Rightarrow> 'a \<Rightarrow> 'a jsset" where
  "Set_add xs e = (if Some e \<in> set xs then xs else xs @ [Some e])"

definition Set_delete :: "'a jsset \<Rightarrow> 'a \<Rightarrow> 'a jsset" where
  "Set_delete xs e = map (\<lambda>x. if x = Some e then None else x) xs"

definition Set_clear :: "'a jsset \<Rightarrow> 'a jsset" where
  "Set_clear xs = map (\<lambda>x. None) xs"

definition Set_elems :: "'a jsset \<Rightarrow> 'a list" where
  "Set_elems xs = List.map_filter (\<lambda>x. x) xs"

section \<open>Options of a resin\<close>

text \<open>
  \<^verbatim>\<open>validate\<close> returns a boolean or an object \<^verbatim>\<open>{valid, error?}\<close>; user functions may
  throw, which the model writes as \<open>Inl\<close>.
\<close>

datatype validation = VBoolean bool | VObject bool "string option"

record persist_options =
  key :: string
  serialize :: "(val \<Rightarrow> exn + string) option"
  deserialize :: "(string \<Rightarrow> exn + val) option"

record resin_options =
  debugName :: "string option"
  persist :: "persist_options option"
  validate :: "(val \<Rightarrow> exn + validation) option"
  transform :: "(val \<Rightarrow> exn + val) list option"

section \<open>The state\<close>

text \<open>The variables closed over by one call of \<^verbatim>\<open>resin()\<close>.\<close>

record resin_state =
  value' :: val
  loading :: bool
  error :: "exn option"
  disposed :: bool
  subscribers :: "eid jsset"
  eventHandlers :: "evtype \<Rightarrow> nat option"
  options :: "resin_options option"

text \<open>
  The functions a computed resin, a derivation or a caller of \<^verbatim>\<open>watchEffect\<close> supplies:
  they read resins and combine what they read.
\<close>

datatype thunk =
    Lit val
  | Get sid
  | Cond thunk thunk thunk
  | Bin "val \<Rightarrow> val \<Rightarrow> val" thunk thunk
  | Fail exn
  | ByPath sid string

text \<open>The effect functions the library itself creates, and a watched user function.\<close>

datatype closure =
    Recompute sid thunk
  | DeriveEffect sid "sid list" "val list \<Rightarrow> exn + val"
  | Watch thunk

text \<open>
  The trace, kept to state the properties: the library called an effect function, the
  library emitted an event, a handler wrote down that it was called with an event.
\<close>

datatype obs = Ran eid | Emitted sid event | Handled hid event

record world =
  effectStack :: "eid list"
  batchDepth :: int
  pendingEffects :: "eid jsset"
  resins :: "sid \<Rightarrow> resin_state"
  sets :: "nat \<Rightarrow> hid jsset"
  heap :: "ref \<Rightarrow> obj"
  closures :: "eid \<Rightarrow> closure option"
  localStorage :: "string \<Rightarrow> string option"
  microtasks :: "sid list"
  fresh :: nat
  trace :: "obs list"

text \<open>
  A call returns a value, throws, or does not come back within the fuel it was given.
  Both a return and a throw leave a state behind.
\<close>

datatype 'a outcome = Ret 'a world | Thrown exn world | Timeout

fun bind_outcome :: "'a outcome \<Rightarrow> ('a \<Rightarrow> world \<Rightarrow> 'b outcome) \<Rightarrow> 'b outcome" where
  "bind_outcome (Ret x w) f = f x w"
| "bind_outcome (Thrown e w) f = Thrown e w"
| "bind_outcome Timeout f = Timeout"

fun catch_outcome :: "'a outcome \<Rightarrow> (exn \<Rightarrow> world \<Rightarrow> 'a outcome) \<Rightarrow> 'a outcome" where
  "catch_outcome (Ret x w) f = Ret x w"
| "catch_outcome (Thrown e w) f = f e w"
| "catch_outcome Timeout f = Timeout"

text \<open>
  The host: what running an effect function or an event handler does, and the two
  built-ins used by persistence.
\<close>

record host =
  effect_fn :: "eid \<Rightarrow> world \<Rightarrow> unit outcome"
  handler_fn :: "hid \<Rightarrow> event \<Rightarrow> world \<Rightarrow> unit outcome"
  json_stringify :: "val \<Rightarrow> exn + string"
  json_parse :: "string \<Rightarrow> exn + val"

definition upd_resin :: "sid \<Rightarrow> (resin_state \<Rightarrow> resin_state) \<Rightarrow> world \<Rightarrow> world" where
  "upd_resin s f w = w\<lparr>resins := (resins w)(s := f (resins w s))\<rparr>"

definition observe :: "obs \<Rightarrow> world \<Rightarrow> world" where
  "observe x w = w\<lparr>trace := trace w @ [x]\<rparr>"

text \<open>\<^verbatim>\<open>effect()\<close>: the call of an effect function, as the library does it.\<close>

definition invoke :: "host \<Rightarrow> eid \<Rightarrow> world \<Rightarrow> unit outcome" where
  "invoke h e w = effect_fn h e (observe (Ran e) w)"

text \<open>
  \<^verbatim>\<open>set.forEach(f)\<close> on the set that \<open>sel\<close> reads from the state, from index \<open>i\<close>, with
  one unit of fuel for each slot visited.
\<close>

fun Set_forEach ::
  "nat \<Rightarrow> nat \<Rightarrow> (world \<Rightarrow> 'a jsset) \<Rightarrow> ('a \<Rightarrow> world \<Rightarrow> unit outcome) \<Rightarrow> world \<Rightarrow> unit outcome" where
  "Set_forEach 0 i sel f w = Timeout"
| "Set_forEach (Suc n) i sel f w =
     (if i < length (sel w) then
        (case sel w ! i of
           None \<Rightarrow> Set_forEach n (Suc i) sel f w
         | Some e \<Rightarrow>
             (case f e w of
                Ret u w' \<Rightarrow> Set_forEach n (Suc i) sel f w'
              | Thrown x w' \<Rightarrow> Thrown x w'
              | Timeout \<Rightarrow> Timeout))
      else Ret () w)"

section \<open>resin: the helpers\<close>

definition validateValue :: "resin_options option \<Rightarrow> val \<Rightarrow> exn + validation" where
  "validateValue opts newValue =
     (case opts of
        None \<Rightarrow> Inr (VObject True None)
      | Some o1 \<Rightarrow>
          (case validate o1 of
             None \<Rightarrow> Inr (VObject True None)
           | Some f \<Rightarrow>
               (case f newValue of
                  Inl e \<Rightarrow> Inl e
                | Inr (VBoolean b) \<Rightarrow> Inr (VObject b None)
                | Inr (VObject b msg) \<Rightarrow> Inr (VObject b msg))))"

fun valid :: "validation \<Rightarrow> bool" where
  "valid (VBoolean b) = b"
| "valid (VObject b msg) = b"

text \<open>\<^verbatim>\<open>validation.error || 'Validation failed'\<close>: an absent or empty message is falsy.\<close>

fun error_message :: "validation \<Rightarrow> string" where
  "error_message (VBoolean b) = ''Validation failed''"
| "error_message (VObject b None) = ''Validation failed''"
| "error_message (VObject b (Some msg)) = (if msg = [] then ''Validation failed'' else msg)"

text \<open>\<^verbatim>\<open>array.reduce((val, fn) => fn(val), newValue)\<close>, stopping at the first throw.\<close>

fun reduce :: "(val \<Rightarrow> exn + val) list \<Rightarrow> val \<Rightarrow> exn + val" where
  "reduce [] v = Inr v"
| "reduce (f # fs) v = (case f v of Inl e \<Rightarrow> Inl e | Inr v' \<Rightarrow> reduce fs v')"

definition transformValue :: "resin_options option \<Rightarrow> val \<Rightarrow> exn + val" where
  "transformValue opts newValue =
     (case opts of
        None \<Rightarrow> Inr newValue
      | Some o1 \<Rightarrow>
          (case transform o1 of
             None \<Rightarrow> Inr newValue
           | Some fs \<Rightarrow> reduce fs newValue))"

text \<open>
  \<^verbatim>\<open>emitEvent(type, event)\<close>: every handler of the type is called under its own
  \<^verbatim>\<open>try\<close>; a handler that throws has its error stored and an \<^verbatim>\<open>error\<close> event emitted
  from inside the loop. The fuel bounds how deep these emissions nest.
\<close>

primrec emitEvent :: "nat \<Rightarrow> host \<Rightarrow> sid \<Rightarrow> event \<Rightarrow> world \<Rightarrow> unit outcome" where
  "emitEvent 0 h s ev w = Timeout"
| "emitEvent (Suc n) h s ev w =
     (let w1 = observe (Emitted s ev) w in
      case eventHandlers (resins w1 s) (typeOf ev) of
        None \<Rightarrow> Ret () w1
      | Some a \<Rightarrow>
          Set_forEach (Suc n) 0 (\<lambda>w'. sets w' a)
            (\<lambda>handler w'.
               case handler_fn h handler ev w' of
                 Ret u w'' \<Rightarrow> Ret () w''
               | Thrown err w'' \<Rightarrow>
                   emitEvent n h s (ErrorEvent err)
                     (upd_resin s (\<lambda>r. r\<lparr>error := Some err\<rparr>) w'')
               | Timeout \<Rightarrow> Timeout)
            w1)"

text \<open>The persistence step at the end of \<^verbatim>\<open>notify\<close>; a failure is only logged.\<close>

definition persist_value :: "host \<Rightarrow> sid \<Rightarrow> world \<Rightarrow> world" where
  "persist_value h s w =
     (case options (resins w s) of
        None \<Rightarrow> w
      | Some o1 \<Rightarrow>
          (case persist o1 of
             None \<Rightarrow> w
           | Some p \<Rightarrow>
               (case (case serialize p of
                        Some f \<Rightarrow> f (value' (resins w s))
                      | None \<Rightarrow> json_stringify h (value' (resins w s))) of
                  Inl e \<Rightarrow> w
                | Inr str \<Rightarrow> w\<lparr>localStorage := (localStorage w)(key p \<mapsto> str)\<rparr>)))"

definition notify :: "nat \<Rightarrow> host \<Rightarrow> sid \<Rightarrow> val \<Rightarrow> world \<Rightarrow> unit outcome" where
  "notify n h s oldValue w =
     (if disposed (resins w s) then Ret () w
      else
        bind_outcome
          (if batchDepth w > 0 then
             Ret () (w\<lparr>pendingEffects :=
                        fold (\<lambda>e p. Set_add p e) (Set_elems (subscribers (resins w s)))
                          (pendingEffects w)\<rparr>)
           else Set_forEach n 0 (\<lambda>w'. subscribers (resins w' s)) (invoke h) w)
          (\<lambda>u w1.
             bind_outcome
               (emitEvent n h s (ChangeEvent (value' (resins w1 s)) oldValue) w1)
               (\<lambda>u w2. Ret () (persist_value h s w2))))"

section \<open>resin: the instance\<close>

text \<open>\<^verbatim>\<open>get value()\<close>\<close>

definition get_value :: "sid \<Rightarrow> world \<Rightarrow> val outcome" where
  "get_value s w =
     (if disposed (resins w s) then Thrown (Error ''Attempted to access disposed resin'') w
      else
        (case effectStack w of
           [] \<Rightarrow> Ret (value' (resins w s)) w
         | _ # _ \<Rightarrow>
             (let w' = upd_resin s
                         (\<lambda>r. r\<lparr>subscribers := Set_add (subscribers r) (last (effectStack w))\<rparr>) w
              in Ret (value' (resins w' s)) w')))"

text \<open>\<^verbatim>\<open>set value(newValue)\<close>\<close>

definition error_in_resin :: "resin_options option \<Rightarrow> string" where
  "error_in_resin opts =
     (case opts of
        None \<Rightarrow> ''Error in Resin''
      | Some o1 \<Rightarrow>
          (case debugName o1 of
             None \<Rightarrow> ''Error in Resin''
           | Some nm \<Rightarrow>
               (if nm = [] then ''Error in Resin''
                else ''Error in Resin '' @ [CHR 0x22] @ nm @ [CHR 0x22])))"

definition debugName_of :: "resin_options option \<Rightarrow> string option" where
  "debugName_of opts = (case opts of None \<Rightarrow> None | Some o1 \<Rightarrow> debugName o1)"

definition set_value :: "nat \<Rightarrow> host \<Rightarrow> sid \<Rightarrow> val \<Rightarrow> world \<Rightarrow> unit outcome" where
  "set_value n h s newValue w =
     (if disposed (resins w s) then Thrown (Error ''Attempted to modify disposed resin'') w
      else
        catch_outcome
          (if value' (resins w s) = newValue then Ret () w
           else
             (case transformValue (options (resins w s)) newValue of
                Inl e \<Rightarrow> Thrown e w
              | Inr transformed \<Rightarrow>
                  (case validateValue (options (resins w s)) newValue of
                     Inl e \<Rightarrow> Thrown e w
                   | Inr validation \<Rightarrow>
                       if \<not> valid validation then
                         emitEvent n h s (ErrorEvent (Error (error_message validation))) w
                       else
                         notify n h s transformed
                           (upd_resin s (\<lambda>r. r\<lparr>value' := newValue\<rparr>) w))))
          (\<lambda>err w'.
             (let e = createResinError (error_in_resin (options (resins w' s)))
                        (debugName_of (options (resins w' s))) err
              in emitEvent n h s (ErrorEvent e)
                   (upd_resin s (\<lambda>r. r\<lparr>error := Some e\<rparr>) w'))))"

text \<open>
  \<^verbatim>\<open>on(event, handler)\<close> registers the handler; the function it returns is \<open>off\<close> at the
  same event and handler.
\<close>

definition on :: "sid \<Rightarrow> evtype \<Rightarrow> hid \<Rightarrow> world \<Rightarrow> world" where
  "on s t handler w =
     (let w1 = (case eventHandlers (resins w s) t of
                  Some a \<Rightarrow> w
                | None \<Rightarrow>
                    upd_resin s (\<lambda>r. r\<lparr>eventHandlers := (eventHandlers r)(t \<mapsto> fresh w)\<rparr>)
                      (w\<lparr>sets := (sets w)(fresh w := []), fresh := Suc (fresh w)\<rparr>))
      in case eventHandlers (resins w1 s) t of
           Some a \<Rightarrow> w1\<lparr>sets := (sets w1)(a := Set_add (sets w1 a) handler)\<rparr>
         | None \<Rightarrow> w1)"

definition off :: "sid \<Rightarrow> evtype \<Rightarrow> hid \<Rightarrow> world \<Rightarrow> world" where
  "off s t handler w =
     (case eventHandlers (resins w s) t of
        Some a \<Rightarrow> w\<lparr>sets := (sets w)(a := Set_delete (sets w a) handler)\<rparr>
      | None \<Rightarrow> w)"

definition dispose :: "nat \<Rightarrow> host \<Rightarrow> sid \<Rightarrow> world \<Rightarrow> unit outcome" where
  "dispose n h s w =
     (if disposed (resins w s) then Ret () w
      else
        bind_outcome
          (emitEvent n h s (DisposeEvent (value' (resins w s)))
             (upd_resin s (\<lambda>r. r\<lparr>disposed := True\<rparr>) w))
          (\<lambda>u w1.
             Ret () (upd_resin s
                       (\<lambda>r. r\<lparr>subscribers := Set_clear (subscribers r),
                               eventHandlers := (\<lambda>t. None)\<rparr>) w1)))"

section \<open>watchEffect and batch\<close>

text \<open>
  \<^verbatim>\<open>watchEffect\<close> has no \<^verbatim>\<open>try\<close>: when the effect throws, the \<^verbatim>\<open>pop\<close> is not reached.
\<close>

definition watchEffect :: "host \<Rightarrow> eid \<Rightarrow> world \<Rightarrow> unit outcome" where
  "watchEffect h effect w =
     bind_outcome (invoke h effect (w\<lparr>effectStack := effectStack w @ [effect]\<rparr>))
       (\<lambda>u w1. Ret () (w1\<lparr>effectStack := butlast (effectStack w1)\<rparr>))"

definition subscribe :: "host \<Rightarrow> eid \<Rightarrow> world \<Rightarrow> unit outcome" where
  "subscribe h effect w = watchEffect h effect w"



section \<open>Reading a nested property\<close>

text \<open>
  \<^verbatim>\<open>path.split('.')\<close>, \<^verbatim>\<open>/^\d+$/.test(key)\<close> and \<^verbatim>\<open>parseInt(key, 10)\<close> on a string of
  digits.
\<close>

fun split :: "char \<Rightarrow> string \<Rightarrow> string list" where
  "split c [] = [] # []"
| "split c (x # xs) =
     (if x = c then [] # split c xs
      else (case split c xs of [] \<Rightarrow> [x] # [] | y # ys \<Rightarrow> (x # y) # ys))"

definition is_digit :: "char \<Rightarrow> bool" where
  "is_digit c = (c \<in> set ''0123456789'')"

definition all_digits :: "string \<Rightarrow> bool" where
  "all_digits k = (k \<noteq> [] \<and> list_all is_digit k)"

definition parseInt :: "string \<Rightarrow> nat" where
  "parseInt k = fold (\<lambda>c n. 10 * n + (of_char c - 48)) k 0"

text \<open>
  \<^verbatim>\<open>current[index]\<close> on an array and \<^verbatim>\<open>current[key]\<close> on any value. Own data properties
  only (the elements and the \<^verbatim>\<open>length\<close> of an array, the fields of an object, the
  characters and the \<^verbatim>\<open>length\<close> of a string): a property inherited from a prototype
  reads as \<^verbatim>\<open>undefined\<close> here.
\<close>

definition array_at :: "val list \<Rightarrow> nat \<Rightarrow> val" where
  "array_at xs i = (if i < length xs then xs ! i else Undefined)"

definition canonical_index :: "string \<Rightarrow> bool" where
  "canonical_index k = (all_digits k \<and> (k = ''0'' \<or> take 1 k \<noteq> ''0''))"

definition get_prop :: "(ref \<Rightarrow> obj) \<Rightarrow> val \<Rightarrow> string \<Rightarrow> val" where
  "get_prop hp v k =
     (case v of
        Ref r \<Rightarrow>
          (case hp r of
             Array xs \<Rightarrow>
               (if k = ''length'' then Num (int (length xs))
                else if canonical_index k then array_at xs (parseInt k)
                else Undefined)
           | Object fs \<Rightarrow> (case map_of fs k of None \<Rightarrow> Undefined | Some x \<Rightarrow> x))
      | Str str \<Rightarrow>
          (if k = ''length'' then Num (int (length str))
           else if canonical_index k \<and> parseInt k < length str then Str [str ! parseInt k]
           else Undefined)
      | _ \<Rightarrow> Undefined)"

definition isArray :: "(ref \<Rightarrow> obj) \<Rightarrow> val \<Rightarrow> bool" where
  "isArray hp v = (case v of Ref r \<Rightarrow> (case hp r of Array xs \<Rightarrow> True | Object fs \<Rightarrow> False) | _ \<Rightarrow> False)"

definition truthy :: "val \<Rightarrow> bool" where
  "truthy v =
     (case v of
        Undefined \<Rightarrow> False
      | Null \<Rightarrow> False
      | Bool b \<Rightarrow> b
      | Num k \<Rightarrow> k \<noteq> 0
      | Str str \<Rightarrow> str \<noteq> []
      | Ref r \<Rightarrow> True
      | Function f \<Rightarrow> True)"

text \<open>The loop of \<^verbatim>\<open>getValueByPath\<close> over the segments.\<close>

fun walk :: "(ref \<Rightarrow> obj) \<Rightarrow> val \<Rightarrow> string list \<Rightarrow> val" where
  "walk hp current [] = current"
| "walk hp current (k # segments) =
     (let next =
            (if isArray hp current \<and> all_digits k
             then (case current of Ref r \<Rightarrow>
                     (case hp r of Array xs \<Rightarrow> array_at xs (parseInt k) | Object fs \<Rightarrow> Undefined)
                   | _ \<Rightarrow> Undefined)
             else get_prop hp current k)
      in if next = Undefined \<or> next = Null then Undefined else walk hp next segments)"

definition getValueByPath :: "(ref \<Rightarrow> obj) \<Rightarrow> val \<Rightarrow> string \<Rightarrow> val" where
  "getValueByPath hp obj path =
     (if \<not> truthy obj then Undefined else walk hp obj (split (CHR ''.'') path))"

section \<open>Running the functions given to the library\<close>

fun eval_thunk :: "thunk \<Rightarrow> world \<Rightarrow> val outcome" where
  "eval_thunk (Lit v) w = Ret v w"
| "eval_thunk (Get s) w = get_value s w"
| "eval_thunk (Cond c a b) w =
     bind_outcome (eval_thunk c w)
       (\<lambda>v w1. if truthy v then eval_thunk a w1 else eval_thunk b w1)"
| "eval_thunk (Bin f a b) w =
     bind_outcome (eval_thunk a w)
       (\<lambda>x w1. bind_outcome (eval_thunk b w1) (\<lambda>y w2. Ret (f x y) w2))"
| "eval_thunk (Fail e) w = Thrown e w"
| "eval_thunk (ByPath s path) w =
     bind_outcome (get_value s w) (\<lambda>v w1. Ret (getValueByPath (heap w1) v path) w1)"

text \<open>\<^verbatim>\<open>from.map(dep => dep.value)\<close>\<close>

fun read_all :: "sid list \<Rightarrow> world \<Rightarrow> val list outcome" where
  "read_all [] w = Ret [] w"
| "read_all (dep # deps) w =
     bind_outcome (get_value dep w)
       (\<lambda>v w1. bind_outcome (read_all deps w1) (\<lambda>vs w2. Ret (v # vs) w2))"

text \<open>
  What calling an effect function does. The recompute effect of \<^verbatim>\<open>computed\<close> is
  \<^verbatim>\<open>() => { computedResin.value = fn(); }\<close>; the effect of \<^verbatim>\<open>derive\<close> assigns under a
  \<^verbatim>\<open>try\<close> whose \<^verbatim>\<open>catch\<close> only logs. The fuel bounds how deep effects call effects; an
  effect that is not in the table is the host's.
\<close>

primrec run_closure :: "nat \<Rightarrow> host \<Rightarrow> eid \<Rightarrow> world \<Rightarrow> unit outcome" where
  "run_closure 0 h e w = Timeout"
| "run_closure (Suc n) h e w =
     (case closures w e of
        None \<Rightarrow> effect_fn h e w
      | Some (Recompute c fn) \<Rightarrow>
          bind_outcome (eval_thunk fn w)
            (\<lambda>v w1. set_value (Suc n) (h\<lparr>effect_fn := run_closure n h\<rparr>) c v w1)
      | Some (DeriveEffect d deps compute) \<Rightarrow>
          catch_outcome
            (bind_outcome (read_all deps w)
               (\<lambda>vs w1.
                  case compute vs of
                    Inl x \<Rightarrow> Thrown x w1
                  | Inr v \<Rightarrow> set_value (Suc n) (h\<lparr>effect_fn := run_closure n h\<rparr>) d v w1))
            (\<lambda>err w1. Ret () w1)
      | Some (Watch fn) \<Rightarrow> bind_outcome (eval_thunk fn w) (\<lambda>v w1. Ret () w1))"

definition lib_host :: "nat \<Rightarrow> host \<Rightarrow> host" where
  "lib_host n h = h\<lparr>effect_fn := run_closure n h\<rparr>"

section \<open>Arrays behind a proxy\<close>

text \<open>
  A proxy trap receives the property key as a string or a symbol, never as a number:
  \<^verbatim>\<open>proxy[0] = x\<close> calls the \<^verbatim>\<open>set\<close> trap with the key \<^verbatim>\<open>"0"\<close>.
\<close>

datatype propkey = PString string | PSymbol nat

definition typeof_key :: "propkey \<Rightarrow> string" where
  "typeof_key prop = (case prop of PString k \<Rightarrow> ''string'' | PSymbol k \<Rightarrow> ''symbol'')"

text \<open>
  The length an array accepts: a number from 0 to \<open>2^32 - 1\<close>, after conversion of a
  boolean, \<^verbatim>\<open>null\<close> or a string of digits; anything else is a \<^verbatim>\<open>RangeError\<close>. (Other
  numeric spellings of a string, and objects, are taken as not a length.)
\<close>

definition to_length :: "val \<Rightarrow> nat option" where
  "to_length v =
     (case v of
        Num k \<Rightarrow> (if 0 \<le> k \<and> k < 2 ^ 32 then Some (nat k) else None)
      | Bool b \<Rightarrow> Some (if b then 1 else 0)
      | Null \<Rightarrow> Some 0
      | Str str \<Rightarrow>
          (if str = [] then Some 0
           else if all_digits str \<and> parseInt str < 2 ^ 32 then Some (parseInt str)
           else None)
      | _ \<Rightarrow> None)"

definition set_length :: "val list \<Rightarrow> nat \<Rightarrow> val list" where
  "set_length xs len = take len xs @ replicate (len - length xs) Undefined"

definition set_at :: "val list \<Rightarrow> nat \<Rightarrow> val \<Rightarrow> val list" where
  "set_at xs i v = (set_length xs (max (length xs) (Suc i)))[i := v]"

text \<open>
  \<^verbatim>\<open>target[prop] = value\<close> on the object itself. A hole of an array reads as
  \<^verbatim>\<open>undefined\<close>; a property of an array other than an index or \<^verbatim>\<open>length\<close> is not kept.
\<close>

definition assign_prop :: "ref \<Rightarrow> propkey \<Rightarrow> val \<Rightarrow> world \<Rightarrow> unit outcome" where
  "assign_prop r prop v w =
     (case prop of
        PSymbol k \<Rightarrow> Ret () w
      | PString k \<Rightarrow>
          (case heap w r of
             Array xs \<Rightarrow>
               (if k = ''length'' then
                  (case to_length v of
                     None \<Rightarrow> Thrown (Error ''Invalid array length'') w
                   | Some len \<Rightarrow> Ret () (w\<lparr>heap := (heap w)(r := Array (set_length xs len))\<rparr>))
                else if canonical_index k then
                  Ret () (w\<lparr>heap := (heap w)(r := Array (set_at xs (parseInt k) v))\<rparr>)
                else Ret () w)
           | Object fs \<Rightarrow> Ret () (w\<lparr>heap := (heap w)(r := Object (AList.update k v fs))\<rparr>)))"

text \<open>\<^verbatim>\<open>[...target]\<close>: a new array with the same elements.\<close>

definition spread :: "ref \<Rightarrow> world \<Rightarrow> ref outcome" where
  "spread r w =
     (case heap w r of
        Array xs \<Rightarrow> Ret (fresh w) (w\<lparr>heap := (heap w)(fresh w := Array xs), fresh := Suc (fresh w)\<rparr>)
      | Object fs \<Rightarrow> Thrown (Error ''target is not iterable'') w)"

text \<open>The \<^verbatim>\<open>set\<close> trap of the handler in \<^verbatim>\<open>enhanceArray\<close>.\<close>

definition array_set ::
  "nat \<Rightarrow> host \<Rightarrow> sid \<Rightarrow> ref \<Rightarrow> propkey \<Rightarrow> val \<Rightarrow> world \<Rightarrow> bool outcome" where
  "array_set n h baseResin target prop v w =
     (if typeof_key prop = ''number'' \<or> prop = PString ''length'' then
        bind_outcome (assign_prop target prop v w)
          (\<lambda>u w1.
             bind_outcome (spread target w1)
               (\<lambda>copy w2.
                  bind_outcome (set_value n h baseResin (Ref copy) w2)
                    (\<lambda>u w3. Ret True w3)))
      else Ret True w)"

text \<open>
  \<^verbatim>\<open>enhanceArray\<close> reads the array through the getter, builds the proxy, assigns the
  five reactive accessors through the proxy (so through the trap), and returns
  \<^verbatim>\<open>Object.assign(baseResin, enhanced)\<close>, which is \<^verbatim>\<open>baseResin\<close> itself.
\<close>

fun assign_accessors ::
  "nat \<Rightarrow> host \<Rightarrow> sid \<Rightarrow> ref \<Rightarrow> string list \<Rightarrow> world \<Rightarrow> unit outcome" where
  "assign_accessors n h s target [] w = Ret () w"
| "assign_accessors n h s target (k # ks) w =
     bind_outcome
       (array_set n h s target (PString k) (Function (fresh w)) (w\<lparr>fresh := Suc (fresh w)\<rparr>))
       (\<lambda>b w1. assign_accessors n h s target ks w1)"

definition enhanceArray :: "nat \<Rightarrow> host \<Rightarrow> sid \<Rightarrow> world \<Rightarrow> sid outcome" where
  "enhanceArray n h baseResin w =
     bind_outcome (get_value baseResin w)
       (\<lambda>array w1.
          case array of
            Ref target \<Rightarrow>
              bind_outcome
                (assign_accessors n h baseResin target
                   [''rFind'', ''rFilter'', ''rMap'', ''rSort'', ''rSlice''] w1)
                (\<lambda>u w2. Ret baseResin w2)
          | _ \<Rightarrow> Thrown (Error ''Cannot create proxy with a non-object as target'') w1)"

section \<open>Creating a resin\<close>

definition restore :: "host \<Rightarrow> resin_options option \<Rightarrow> val \<Rightarrow> world \<Rightarrow> val" where
  "restore h opts initialValue w =
     (case opts of
        None \<Rightarrow> initialValue
      | Some o1 \<Rightarrow>
          (case persist o1 of
             None \<Rightarrow> initialValue
           | Some p \<Rightarrow>
               (case localStorage w (key p) of
                  None \<Rightarrow> initialValue
                | Some stored \<Rightarrow>
                    (if stored = [] then initialValue
                     else
                       (case (case deserialize p of
                                Some f \<Rightarrow> f stored
                              | None \<Rightarrow> json_parse h stored) of
                          Inl e \<Rightarrow> initialValue
                        | Inr v \<Rightarrow> v)))))"

text \<open>
  \<^verbatim>\<open>resin(initialValue, options)\<close>. The \<^verbatim>\<open>init\<close> event is queued as a microtask. The
  values of the model include no \<^verbatim>\<open>Map\<close>, so the branch to \<^verbatim>\<open>enhanceMap\<close> is never taken.
\<close>

definition resin :: "nat \<Rightarrow> host \<Rightarrow> val \<Rightarrow> resin_options option \<Rightarrow> world \<Rightarrow> sid outcome" where
  "resin n h initialValue opts w =
     (let s = fresh w;
          w1 = w\<lparr>resins := (resins w)
                  (s := \<lparr>value' = restore h opts initialValue w, loading = False,
                         error = None, disposed = False, subscribers = [],
                         eventHandlers = (\<lambda>t. None), options = opts\<rparr>),
                microtasks := microtasks w @ [s],
                fresh := Suc s\<rparr>
      in if isArray (heap w1) initialValue then enhanceArray n h s w1 else Ret s w1)"

text \<open>The queued microtask of a resin: \<^verbatim>\<open>emitEvent('init', { value })\<close>.\<close>

fun run_microtasks :: "nat \<Rightarrow> host \<Rightarrow> sid list \<Rightarrow> world \<Rightarrow> unit outcome" where
  "run_microtasks n h [] w = Ret () w"
| "run_microtasks n h (s # ss) w =
     bind_outcome (emitEvent n h s (InitEvent (value' (resins w s))) w)
       (\<lambda>u w1. run_microtasks n h ss w1)"

section \<open>computed, derive, select\<close>

definition new_closure :: "closure \<Rightarrow> world \<Rightarrow> eid \<times> world" where
  "new_closure c w = (fresh w, w\<lparr>closures := (closures w)(fresh w \<mapsto> c), fresh := Suc (fresh w)\<rparr>)"

definition computed :: "nat \<Rightarrow> host \<Rightarrow> thunk \<Rightarrow> world \<Rightarrow> sid outcome" where
  "computed n h fn w =
     bind_outcome (eval_thunk fn w)
       (\<lambda>v w1.
          bind_outcome (resin n (lib_host n h) v None w1)
            (\<lambda>computedResin w2.
               (case new_closure (Recompute computedResin fn) w2 of
                  (effect, w3) \<Rightarrow>
                    bind_outcome (watchEffect (lib_host n h) effect w3)
                      (\<lambda>u w4. Ret computedResin w4))))"

text \<open>
  The object \<^verbatim>\<open>derive\<close> returns is \<^verbatim>\<open>{ ...derivedResin, dispose() {...} }\<close>. The spread
  reads each own property of \<^verbatim>\<open>derivedResin\<close> once, calling the getters, and defines the
  results as plain data properties of the new object; the methods it copies still work
  on \<^verbatim>\<open>derivedResin\<close>.
\<close>

record derived_object =
  value_prop :: val
  loading_prop :: bool
  error_prop :: "exn option"
  derivedResin :: sid
  effect_of :: eid
  sources :: "sid list"

definition derive ::
  "nat \<Rightarrow> host \<Rightarrow> sid list \<Rightarrow> (val list \<Rightarrow> exn + val) \<Rightarrow> world \<Rightarrow> derived_object outcome" where
  "derive n h deps compute w =
     bind_outcome (read_all deps w)
       (\<lambda>vs w1.
          case compute vs of
            Inl x \<Rightarrow> Thrown x w1
          | Inr v \<Rightarrow>
              bind_outcome (resin n (lib_host n h) v None w1)
                (\<lambda>d w2.
                   (case new_closure (DeriveEffect d deps compute) w2 of
                      (effect, w3) \<Rightarrow>
                        bind_outcome (watchEffect (lib_host n h) effect w3)
                          (\<lambda>u w4.
                             bind_outcome (get_value d w4)
                               (\<lambda>v' w5.
                                  Ret \<lparr>value_prop = v',
                                       loading_prop = loading (resins w5 d),
                                       error_prop = error (resins w5 d),
                                       derivedResin = d, effect_of = effect,
                                       sources = deps\<rparr> w5)))))"

text \<open>Reading \<^verbatim>\<open>.value\<close> of the returned object reads the data property.\<close>

definition derived_value :: "derived_object \<Rightarrow> world \<Rightarrow> val outcome" where
  "derived_value obj w = Ret (value_prop obj) w"

definition derived_dispose :: "nat \<Rightarrow> host \<Rightarrow> derived_object \<Rightarrow> world \<Rightarrow> unit outcome" where
  "derived_dispose n h obj w =
     bind_outcome (dispose n h (derivedResin obj) w)
       (\<lambda>u w1.
          Ret () (fold (\<lambda>dep. upd_resin dep
                          (\<lambda>r. r\<lparr>subscribers := Set_delete (subscribers r) (effect_of obj)\<rparr>))
                    (sources obj) w1))"

text \<open>
  \<^verbatim>\<open>select(state, path)\<close>: the \<^verbatim>\<open>WeakMap\<close> named \<^verbatim>\<open>cache\<close> is created inside the
  function, on every call.
\<close>

definition select :: "nat \<Rightarrow> host \<Rightarrow> sid \<Rightarrow> string \<Rightarrow> world \<Rightarrow> sid outcome" where
  "select n h state path w =
     (let cache = (Map.empty :: sid \<Rightarrow> (string \<Rightarrow> sid option) option);
          cache1 = (if cache state = None then cache(state \<mapsto> Map.empty) else cache);
          pathCache = (case cache1 state of None \<Rightarrow> Map.empty | Some m \<Rightarrow> m)
      in case pathCache path of
           Some selected \<Rightarrow> Ret selected w
         | None \<Rightarrow>
             bind_outcome (computed n h (ByPath state path) w)
               (\<lambda>selected w1. Ret selected w1))"

section \<open>The state of a freshly loaded module\<close>

definition resin0 :: resin_state where
  "resin0 = \<lparr>value' = Undefined, loading = False, error = None, disposed = False,
             subscribers = [], eventHandlers = (\<lambda>t. None), options = None\<rparr>"

definition world0 :: world where
  "world0 = \<lparr>effectStack = [], batchDepth = 0, pendingEffects = [],
             resins = (\<lambda>s. resin0), sets = (\<lambda>a. []), heap = (\<lambda>r. Object []),
             closures = (\<lambda>e. None), localStorage = (\<lambda>k. None), microtasks = [],
             fresh = 0, trace = []\<rparr>"

text \<open>A host whose own effects and handlers return at once.\<close>

definition host0 :: host where
  "host0 = \<lparr>effect_fn = (\<lambda>e w. Ret () w), handler_fn = (\<lambda>handler ev w. Ret () w),
            json_stringify = (\<lambda>v. Inl (Error ''not serializable'')),
            json_parse = (\<lambda>str. Inl (Error ''not parsable''))\<rparr>"

section \<open>Vocabulary of the properties\<close>

text \<open>The handlers registered on a resin for one type of event.\<close>

definition handlers_of :: "world \<Rightarrow> sid \<Rightarrow> evtype \<Rightarrow> hid jsset" where
  "handlers_of w s t = (case eventHandlers (resins w s) t of None \<Rightarrow> [] | Some a \<Rightarrow> sets w a)"

text \<open>
  A recording host: each of its handlers writes down the call and returns. What one
  emission to such handlers adds to the trace is the event, then one entry for each
  handler of its type, in the order of registration.
\<close>

definition recording :: "host \<Rightarrow> bool" where
  "recording h = (\<forall>handler ev w. handler_fn h handler ev w = Ret () (observe (Handled handler ev) w))"

definition announce :: "sid \<Rightarrow> event \<Rightarrow> world \<Rightarrow> obs list" where
  "announce s ev w = Emitted s ev # map (\<lambda>handler. Handled handler ev) (Set_elems (handlers_of w s (typeOf ev)))"

text \<open>The events emitted and the effects called, read off a trace.\<close>

fun emitted :: "obs list \<Rightarrow> (sid \<times> event) list" where
  "emitted [] = []"
| "emitted (Emitted s ev # tr) = (s, ev) # emitted tr"
| "emitted (x # tr) = emitted tr"

fun effects_run :: "obs list \<Rightarrow> eid list" where
  "effects_run [] = []"
| "effects_run (Ran e # tr) = e # effects_run tr"
| "effects_run (x # tr) = effects_run tr"

text \<open>A quiet handler returns and leaves the state as it found it.\<close>

definition quiet_handlers :: "host \<Rightarrow> bool" where
  "quiet_handlers h = (\<forall>handler ev w. handler_fn h handler ev w = Ret () w)"

text \<open>The error stored by the \<^verbatim>\<open>catch\<close> of the setter.\<close>

definition wrapped :: "world \<Rightarrow> sid \<Rightarrow> exn \<Rightarrow> exn" where
  "wrapped w s e = createResinError (error_in_resin (options (resins w s)))
                     (debugName_of (options (resins w s))) e"

text \<open>\<^verbatim>\<open>subscribers.forEach((effect) => pendingEffects.add(effect))\<close>\<close>

definition queue_all :: "eid jsset \<Rightarrow> eid jsset \<Rightarrow> eid jsset" where
  "queue_all subs pending = fold (\<lambda>e p. Set_add p e) (Set_elems subs) pending"


text \<open>
  The parts of a write that passes the identity check and the validation: the state
  after \<^verbatim>\<open>value = newValue\<close>; the first half of \<^verbatim>\<open>notify\<close>, which queues the subscribers
  in an open batch and calls them otherwise; its second half, which emits the
  \<^verbatim>\<open>change\<close> event and persists; and the \<^verbatim>\<open>catch\<close> of the setter.
\<close>

definition stored :: "sid \<Rightarrow> val \<Rightarrow> world \<Rightarrow> world" where
  "stored s x w = upd_resin s (\<lambda>r. r\<lparr>value' := x\<rparr>) w"

definition run_subscribers :: "nat \<Rightarrow> host \<Rightarrow> sid \<Rightarrow> world \<Rightarrow> unit outcome" where
  "run_subscribers n h s w =
     (if batchDepth w > 0 then
        Ret () (w\<lparr>pendingEffects := queue_all (subscribers (resins w s)) (pendingEffects w)\<rparr>)
      else Set_forEach n 0 (\<lambda>w'. subscribers (resins w' s)) (invoke h) w)"

definition emit_and_persist :: "nat \<Rightarrow> host \<Rightarrow> sid \<Rightarrow> val \<Rightarrow> world \<Rightarrow> unit outcome" where
  "emit_and_persist n h s old w =
     bind_outcome (emitEvent n h s (ChangeEvent (value' (resins w s)) old) w)
       (\<lambda>u w2. Ret () (persist_value h s w2))"

definition report_error :: "nat \<Rightarrow> host \<Rightarrow> sid \<Rightarrow> exn \<Rightarrow> world \<Rightarrow> unit outcome" where
  "report_error n h s err w =
     emitEvent n h s (ErrorEvent (wrapped w s err))
       (upd_resin s (\<lambda>r. r\<lparr>error := Some (wrapped w s err)\<rparr>) w)"

text \<open>
  A call is calm when, started while no batch is open, it leaves the batch depth and
  the pending set as they were, whether it returns or throws. Calm effects and calm
  handlers are those whose every call is calm.
\<close>

definition calm :: "world \<Rightarrow> world \<Rightarrow> bool" where
  "calm w w' = (batchDepth w \<le> 0 \<longrightarrow>
                  batchDepth w' = batchDepth w \<and> pendingEffects w' = pendingEffects w)"

definition keeps :: "world \<Rightarrow> 'a outcome \<Rightarrow> bool" where
  "keeps w r = (case r of Ret x w' \<Rightarrow> calm w w' | Thrown e w' \<Rightarrow> calm w w' | Timeout \<Rightarrow> True)"


definition calm_handlers :: "host \<Rightarrow> bool" where
  "calm_handlers h = (\<forall>handler ev w. keeps w (handler_fn h handler ev w))"



fun world_of :: "'a outcome \<Rightarrow> world" where
  "world_of (Ret x w) = w"
| "world_of (Thrown e w) = w"
| "world_of Timeout = world0"

section \<open>Concrete runs\<close>

text \<open>
  A computed resin with a conditional dependency:
  \<^verbatim>\<open>c = computed(() => flag.value ? a.value : b.value)\<close>, then \<^verbatim>\<open>flag.value = false\<close>,
  then \<^verbatim>\<open>b.value = 20\<close>. The run reports the value of \<^verbatim>\<open>c\<close> after each write, the
  subscribers of \<^verbatim>\<open>b\<close> and the effects that ran.
\<close>

definition cond_scenario :: "(val \<times> val \<times> eid jsset \<times> eid list) option" where
  "cond_scenario =
     (case resin 9 host0 (Bool True) None world0 of
        Ret flag w1 \<Rightarrow>
          (case resin 9 host0 (Num 1) None w1 of
             Ret a w2 \<Rightarrow>
               (case resin 9 host0 (Num 10) None w2 of
                  Ret b w3 \<Rightarrow>
                    (case computed 9 host0 (Cond (Get flag) (Get a) (Get b)) w3 of
                       Ret c w4 \<Rightarrow>
                         (case set_value 9 (lib_host 9 host0) flag (Bool False) w4 of
                            Ret u w5 \<Rightarrow>
                              (case set_value 9 (lib_host 9 host0) b (Num 20) w5 of
                                 Ret u' w6 \<Rightarrow>
                                   Some (value' (resins w5 c), value' (resins w6 c),
                                         subscribers (resins w6 b), effects_run (trace w6))
                               | _ \<Rightarrow> None)
                          | _ \<Rightarrow> None)
                     | _ \<Rightarrow> None)
                | _ \<Rightarrow> None)
           | _ \<Rightarrow> None)
      | _ \<Rightarrow> None)"

text \<open>
  \<^verbatim>\<open>d = derive({ from: [a], compute: x => x + 1 })\<close>, then \<^verbatim>\<open>a.value = 5\<close>. The run reports
  \<^verbatim>\<open>d.value\<close>, the value held by the resin inside \<^verbatim>\<open>d\<close>, the value of \<^verbatim>\<open>a\<close> and the
  effects that ran.
\<close>

definition plus1 :: "val list \<Rightarrow> exn + val" where
  "plus1 vs = (case vs of [Num k] \<Rightarrow> Inr (Num (k + 1)) | _ \<Rightarrow> Inl (Error ''bad arguments''))"

definition derive_scenario :: "(val \<times> val \<times> val \<times> eid list) option" where
  "derive_scenario =
     (case resin 9 host0 (Num 1) None world0 of
        Ret a w1 \<Rightarrow>
          (case derive 9 host0 [a] plus1 w1 of
             Ret d w2 \<Rightarrow>
               (case set_value 9 (lib_host 9 host0) a (Num 5) w2 of
                  Ret u w3 \<Rightarrow>
                    (case derived_value d w3 of
                       Ret v w4 \<Rightarrow>
                         Some (v, value' (resins w4 (derivedResin d)), value' (resins w4 a),
                               effects_run (trace w4))
                     | _ \<Rightarrow> None)
                | _ \<Rightarrow> None)
           | _ \<Rightarrow> None)
      | _ \<Rightarrow> None)"

text \<open>
  \<^verbatim>\<open>state = resin({ a: { b: 5 } })\<close> and two calls of \<^verbatim>\<open>select(state, 'a.b')\<close>. The run
  reports the two instances returned and their values.
\<close>

definition nested_world :: world where
  "nested_world =
     world0\<lparr>heap := (\<lambda>r. Object [])
                (0 := Object [(''a'', Ref 1)], 1 := Object [(''b'', Num 5)]),
            fresh := 2\<rparr>"

definition select_scenario :: "(sid \<times> sid \<times> val \<times> val) option" where
  "select_scenario =
     (case resin 9 host0 (Ref 0) None nested_world of
        Ret state w1 \<Rightarrow>
          (case select 9 host0 state ''a.b'' w1 of
             Ret first w2 \<Rightarrow>
               (case select 9 host0 state ''a.b'' w2 of
                  Ret second w3 \<Rightarrow>
                    Some (first, second, value' (resins w3 first), value' (resins w3 second))
                | _ \<Rightarrow> None)
           | _ \<Rightarrow> None)
      | _ \<Rightarrow> None)"

text \<open>\<^verbatim>\<open>s = resin(0); s.dispose()\<close>\<close>

definition disposed_world :: world where
  "disposed_world =
     (case resin 9 host0 (Num 0) None world0 of
        Ret s w1 \<Rightarrow> (case dispose 9 host0 s w1 of Ret u w2 \<Rightarrow> w2 | _ \<Rightarrow> w1)
      | _ \<Rightarrow> world0)"


text \<open>
  A host whose handlers record their calls, and one whose handlers throw when they
  are given the validation error \<^verbatim>\<open>"bad"\<close>.
\<close>

definition recorder :: host where
  "recorder = host0\<lparr>handler_fn := (\<lambda>handler ev w. Ret () (observe (Handled handler ev) w))\<rparr>"

definition thrower :: host where
  "thrower = host0\<lparr>handler_fn :=
     (\<lambda>handler ev w.
        if ev = ErrorEvent (Error ''bad'')
        then Thrown (Error ''h'') (observe (Handled handler ev) w)
        else Ret () (observe (Handled handler ev) w))\<rparr>"






text \<open>
  A resin with a validator that rejects 1 and two transforms, read by a computed
  resin, with a \<^verbatim>\<open>change\<close> handler and an \<^verbatim>\<open>error\<close> handler.
\<close>

definition add_one :: "val \<Rightarrow> exn + val" where
  "add_one v = (case v of Num k \<Rightarrow> Inr (Num (k + 1)) | _ \<Rightarrow> Inr v)"

definition twice :: "val \<Rightarrow> exn + val" where
  "twice v = (case v of Num k \<Rightarrow> Inr (Num (2 * k)) | _ \<Rightarrow> Inr v)"

definition not_one :: "val \<Rightarrow> exn + validation" where
  "not_one v = Inr (if v = Num 1 then VObject False (Some ''bad'') else VBoolean True)"

definition guarded :: resin_options where
  "guarded = \<lparr>debugName = Some ''count'', persist = None, validate = Some not_one,
              transform = Some [add_one, twice]\<rparr>"

definition counted_world :: world where
  "counted_world =
     world_of
       (bind_outcome (resin 9 recorder (Num 0) (Some guarded) world0)
          (\<lambda>s w1. bind_outcome (computed 9 recorder (Get s) w1)
             (\<lambda>c w. Ret () (on s EvError 8 (on s EvChange 7 w)))))"

text \<open>
  A resin whose subscriber throws when the value is truthy:
  \<^verbatim>\<open>watchEffect(() => { if (s.value) throw new Error('boom'); })\<close>, then \<^verbatim>\<open>s.value = 1\<close>,
  once outside a batch and once with a batch open. The run reports the value stored by
  the first write and what each write added to the trace.
\<close>

definition touchy_world :: world where
  "touchy_world =
     world_of
       (bind_outcome (resin 9 recorder (Num 0) None world0)
          (\<lambda>s w. case new_closure (Watch (Cond (Get s) (Fail (Error ''boom'')) (Lit Undefined))) w of
                    (e, w') \<Rightarrow> watchEffect (lib_host 9 recorder) e (on s EvError 8 (on s EvChange 7 w'))))"

definition touchy_scenario :: "(val \<times> obs list \<times> obs list) option" where
  "touchy_scenario =
     (case set_value 9 (lib_host 9 recorder) 0 (Num 1) touchy_world of
        Ret u w \<Rightarrow>
          (case set_value 9 (lib_host 9 recorder) 0 (Num 1) (touchy_world\<lparr>batchDepth := 1\<rparr>) of
             Ret u' w' \<Rightarrow>
               Some (value' (resins w 0), drop (length (trace touchy_world)) (trace w),
                     drop (length (trace touchy_world)) (trace w'))
           | _ \<Rightarrow> None)
      | _ \<Rightarrow> None)"

text \<open>
  A rejected write to a resin whose \<^verbatim>\<open>error\<close> handler throws. The run reports the value,
  the trace and the stored error.
\<close>

definition bad_handler_scenario :: "(val \<times> obs list \<times> exn option) option" where
  "bad_handler_scenario =
     (case resin 9 thrower (Num 0) (Some guarded) world0 of
        Ret s w1 \<Rightarrow>
          (case set_value 9 thrower s (Num 1) (on s EvError 8 w1) of
             Ret u w2 \<Rightarrow> Some (value' (resins w2 s), trace w2, error (resins w2 s))
           | _ \<Rightarrow> None)
      | _ \<Rightarrow> None)"

section \<open>Lemmas\<close>

subsection \<open>Sets\<close>

lemma Set_elems_Nil [simp]: "Set_elems [] = []"
  by (simp add: Set_elems_def)

lemma Set_elems_Cons_None [simp]: "Set_elems (None # xs) = Set_elems xs"
  by (simp add: Set_elems_def)

lemma Set_elems_Cons_Some [simp]: "Set_elems (Some x # xs) = x # Set_elems xs"
  by (simp add: Set_elems_def)

lemma Set_elems_append [simp]: "Set_elems (xs @ ys) = Set_elems xs @ Set_elems ys"
  by (induction xs) (auto simp: Set_elems_def split: option.splits)

lemma set_Set_elems: "set (Set_elems xs) = {e. Some e \<in> set xs}"
  by (induction xs) (auto simp: Set_elems_def split: option.splits)

lemma Set_elems_clear [simp]: "Set_elems (Set_clear xs) = []"
  by (induction xs) (simp_all add: Set_clear_def)










lemma Set_has_queue_all:
  "Set_has subs e \<Longrightarrow> Set_has (queue_all subs p) e"
proof -
  have "e \<in> set xs \<or> Some e \<in> set p \<Longrightarrow> Some e \<in> set (fold (\<lambda>e p. Set_add p e) xs p)" for xs
  proof (induction xs arbitrary: p)
    case Nil
    then show ?case by simp
  next
    case (Cons x xs)
    then show ?case by (auto simp: Set_add_def)
  qed
  then show "Set_has subs e \<Longrightarrow> Set_has (queue_all subs p) e"
    by (simp add: queue_all_def Set_has_def set_Set_elems)
qed


lemma Set_elems_take_Suc:
  "i < length p \<Longrightarrow>
   Set_elems (take (Suc i) p) = Set_elems (take i p) @ (case p ! i of None \<Rightarrow> [] | Some e \<Rightarrow> [e])"
  by (simp add: take_Suc_conv_app_nth split: option.splits)

lemma drop_Suc_nth: "i < length xs \<Longrightarrow> drop i xs = xs ! i # drop (Suc i) xs"
  by (simp add: Cons_nth_drop_Suc)

subsection \<open>Iterating over a set\<close>

lemma forEach_observe:
  assumes f: "\<And>e w. f e w = Ret () (observe (g e) w)"
    and sel: "\<And>x w. sel (observe x w) = sel w"
  shows "length (sel w) - i < n \<Longrightarrow>
    Set_forEach n i sel f w = Ret () (w\<lparr>trace := trace w @ map g (Set_elems (drop i (sel w)))\<rparr>)"
proof (induction n arbitrary: i w)
  case 0
  then show ?case by simp
next
  case (Suc n)
  show ?case
  proof (cases "i < length (sel w)")
    case False
    then show ?thesis by simp
  next
    case True
    note lt = this
    show ?thesis
    proof (cases "sel w ! i")
      case None
      have "length (sel w) - Suc i < n" using Suc.prems lt by simp
      from Suc.IH [OF this] None lt show ?thesis
        by (simp add: drop_Suc_nth [OF lt])
    next
      case (Some e)
      have "length (sel (observe (g e) w)) - Suc i < n" using Suc.prems lt by (simp add: sel)
      from Suc.IH [OF this]
      have "Set_forEach n (Suc i) sel f (observe (g e) w) =
            Ret () (w\<lparr>trace := trace w @ g e # map g (Set_elems (drop (Suc i) (sel w)))\<rparr>)"
        unfolding sel by (simp add: observe_def)
      moreover have "f e w = Ret () (observe (g e) w)" by (rule f)
      ultimately show ?thesis using Some lt
        by (simp add: drop_Suc_nth [OF lt])
    qed
  qed
qed

lemma forEach_inv:
  assumes step: "\<And>e w i. I i w \<Longrightarrow> i < length (sel w) \<Longrightarrow> sel w ! i = Some e \<Longrightarrow>
             \<exists>w'. f e w = Ret () w' \<and> I (Suc i) w' \<and> length (sel w') = length (sel w)"
    and skip: "\<And>w i. I i w \<Longrightarrow> i < length (sel w) \<Longrightarrow> sel w ! i = None \<Longrightarrow> I (Suc i) w"
  shows "I i w \<Longrightarrow> length (sel w) - i < n \<Longrightarrow> i \<le> length (sel w) \<Longrightarrow>
    \<exists>w'. Set_forEach n i sel f w = Ret () w' \<and> I (length (sel w')) w'"
proof (induction n arbitrary: i w)
  case 0
  then show ?case by simp
next
  case (Suc n)
  show ?case
  proof (cases "i < length (sel w)")
    case False
    with Suc.prems show ?thesis by simp
  next
    case True
    note lt = this
    show ?thesis
    proof (cases "sel w ! i")
      case None
      have "I (Suc i) w" using skip Suc.prems(1) lt None by blast
      moreover have "length (sel w) - Suc i < n" using Suc.prems lt by simp
      ultimately obtain w' where "Set_forEach n (Suc i) sel f w = Ret () w'" "I (length (sel w')) w'"
        using Suc.IH [of "Suc i" w] lt by auto
      then show ?thesis using None lt by simp
    next
      case (Some e)
      obtain w1 where w1: "f e w = Ret () w1" "I (Suc i) w1" "length (sel w1) = length (sel w)"
        using step [OF Suc.prems(1) lt Some] by blast
      have "length (sel w1) - Suc i < n" using Suc.prems lt w1 by simp
      then obtain w' where "Set_forEach n (Suc i) sel f w1 = Ret () w'" "I (length (sel w')) w'"
        using Suc.IH [of "Suc i" w1] w1 lt by auto
      then show ?thesis using Some lt w1 by simp
    qed
  qed
qed

subsection \<open>Traces\<close>

lemma emitted_append [simp]: "emitted (xs @ ys) = emitted xs @ emitted ys"
  by (induction xs rule: emitted.induct) simp_all

lemma effects_run_append [simp]: "effects_run (xs @ ys) = effects_run xs @ effects_run ys"
  by (induction xs rule: effects_run.induct) simp_all

lemma emitted_Handled [simp]: "emitted (map (\<lambda>handler. Handled handler ev) xs) = []"
  by (induction xs) simp_all

lemma effects_run_Handled [simp]: "effects_run (map (\<lambda>handler. Handled handler ev) xs) = []"
  by (induction xs) simp_all

lemma emitted_Ran [simp]: "emitted (map Ran xs) = []"
  by (induction xs) simp_all

lemma effects_run_Ran [simp]: "effects_run (map Ran xs) = xs"
  by (induction xs) simp_all

lemma emitted_announce [simp]: "emitted (announce s ev w) = [(s, ev)]"
  by (simp add: announce_def)

lemma effects_run_announce [simp]: "effects_run (announce s ev w) = []"
  by (simp add: announce_def)

subsection \<open>Emitting\<close>

lemma persist_value_fields [simp]:
  "resins (persist_value h s w) = resins w"
  "trace (persist_value h s w) = trace w"
  "pendingEffects (persist_value h s w) = pendingEffects w"
  "batchDepth (persist_value h s w) = batchDepth w"
  "effectStack (persist_value h s w) = effectStack w"
  "sets (persist_value h s w) = sets w"
  by (simp_all add: persist_value_def split: option.splits sum.splits)

lemma handlers_of_cong:
  assumes "eventHandlers (resins w' s) = eventHandlers (resins w s)" and "sets w' = sets w"
  shows "handlers_of w' s t = handlers_of w s t"
  by (simp only: handlers_of_def assms)

lemma announce_cong:
  assumes "eventHandlers (resins w' s) = eventHandlers (resins w s)" and "sets w' = sets w"
  shows "announce s ev w' = announce s ev w"
  by (simp only: announce_def handlers_of_cong [OF assms])

lemma emitEvent_quiet:
  assumes q: "quiet_handlers h" and n: "length (handlers_of w s (typeOf ev)) < n"
  shows "emitEvent n h s ev w = Ret () (w\<lparr>trace := trace w @ [Emitted s ev]\<rparr>)"
proof (cases n)
  case 0
  with n show ?thesis by simp
next
  case (Suc m)
  show ?thesis
  proof (cases "eventHandlers (resins w s) (typeOf ev)")
    case None
    then show ?thesis using Suc by (simp add: observe_def)
  next
    case (Some a)
    let ?f = "\<lambda>handler w'. case handler_fn h handler ev w' of
                 Ret u w'' \<Rightarrow> Ret () w''
               | Thrown err w'' \<Rightarrow> emitEvent m h s (ErrorEvent err)
                     (upd_resin s (\<lambda>r. r\<lparr>error := Some err\<rparr>) w'')
               | Timeout \<Rightarrow> Timeout"
    define I where "I = (\<lambda>(i::nat) (w'::world). w' = observe (Emitted s ev) w)"
    have step: "\<exists>w'. ?f e v = Ret () w' \<and> I (Suc i) w' \<and> length (sets w' a) = length (sets v a)"
      if "I i v" for e and v :: world and i
      using that q by (simp add: quiet_handlers_def I_def)
    have skip: "I (Suc i) v" if "I i v" for v :: world and i
      using that by (simp add: I_def)
    have start: "I 0 (observe (Emitted s ev) w)" by (simp add: I_def)
    have len: "length (sets (observe (Emitted s ev) w) a) - 0 < Suc m"
      using n Some Suc by (simp add: handlers_of_def observe_def)
    have "\<exists>w'. Set_forEach (Suc m) 0 (\<lambda>w'. sets w' a) ?f (observe (Emitted s ev) w) = Ret () w' \<and>
            I (length (sets w' a)) w'"
      by (rule forEach_inv [where I = I and sel = "\<lambda>w'. sets w' a", OF step skip start len]) simp_all
    then have "Set_forEach (Suc m) 0 (\<lambda>w'. sets w' a) ?f (observe (Emitted s ev) w) =
               Ret () (observe (Emitted s ev) w)"
      by (auto simp: I_def)
    then show ?thesis using Some Suc by (simp add: observe_def)
  qed
qed

subsection \<open>Reading\<close>

lemma get_value_idle:
  "effectStack w = [] \<Longrightarrow>
   get_value s w = (if disposed (resins w s)
                    then Thrown (Error ''Attempted to access disposed resin'') w
                    else Ret (value' (resins w s)) w)"
  by (simp add: get_value_def)


subsection \<open>Emitting to recording handlers\<close>

lemma emitEvent_recording:
  assumes r: "recording h" and n: "length (handlers_of w s (typeOf ev)) < n"
  shows "emitEvent n h s ev w = Ret () (w\<lparr>trace := trace w @ announce s ev w\<rparr>)"
proof (cases n)
  case 0
  with n show ?thesis by simp
next
  case (Suc m)
  show ?thesis
  proof (cases "eventHandlers (resins w s) (typeOf ev)")
    case None
    then show ?thesis using Suc
      by (simp add: observe_def handlers_of_def announce_def)
  next
    case (Some a)
    let ?f = "\<lambda>handler w'. case handler_fn h handler ev w' of
                 Ret u w'' \<Rightarrow> Ret () w''
               | Thrown err w'' \<Rightarrow> emitEvent m h s (ErrorEvent err)
                     (upd_resin s (\<lambda>r. r\<lparr>error := Some err\<rparr>) w'')
               | Timeout \<Rightarrow> Timeout"
    have f: "\<And>e w. ?f e w = Ret () (observe (Handled e ev) w)"
      using r by (simp add: recording_def)
    have sel: "\<And>x w. (\<lambda>w'. sets w' a) (observe x w) = (\<lambda>w'. sets w' a) w"
      by (simp add: observe_def)
    have len: "length ((\<lambda>w'. sets w' a) (observe (Emitted s ev) w)) - 0 < Suc m"
      using n Some Suc by (simp add: handlers_of_def observe_def)
    have "Set_forEach (Suc m) 0 (\<lambda>w'. sets w' a) ?f (observe (Emitted s ev) w) =
          Ret () ((observe (Emitted s ev) w)\<lparr>trace := trace (observe (Emitted s ev) w) @
             map (\<lambda>e. Handled e ev) (Set_elems (drop 0 ((\<lambda>w'. sets w' a) (observe (Emitted s ev) w))))\<rparr>)"
      by (rule forEach_observe [where g = "\<lambda>e. Handled e ev", OF f sel len])
    then show ?thesis using Some Suc
      by (simp add: observe_def handlers_of_def announce_def)
  qed
qed

lemma forEach_never_throws:
  assumes f: "\<And>e w x w'. f e w \<noteq> Thrown x w'"
  shows "Set_forEach n i sel f w \<noteq> Thrown x w'"
proof (induction n arbitrary: i w)
  case 0
  then show ?case by simp
next
  case (Suc n)
  show ?case
  proof (cases "i < length (sel w)")
    case False
    then show ?thesis by simp
  next
    case True
    show ?thesis
    proof (cases "sel w ! i")
      case None
      then show ?thesis using True Suc.IH by simp
    next
      case (Some e)
      then show ?thesis using True Suc.IH f by (cases "f e w") auto
    qed
  qed
qed

lemma emitEvent_never_throws: "emitEvent n h s ev w \<noteq> Thrown x w'"
proof (induction n arbitrary: s ev w x w')
  case 0
  then show ?case by simp
next
  case (Suc n)
  let ?f = "\<lambda>handler w'. case handler_fn h handler ev w' of
                 Ret u w'' \<Rightarrow> Ret () w''
               | Thrown err w'' \<Rightarrow> emitEvent n h s (ErrorEvent err)
                     (upd_resin s (\<lambda>r. r\<lparr>error := Some err\<rparr>) w'')
               | Timeout \<Rightarrow> Timeout"
  have f: "?f e v \<noteq> Thrown y v'" for e v y v'
    using Suc.IH by (cases "handler_fn h e ev v") auto
  show ?case
  proof (cases "eventHandlers (resins w s) (typeOf ev)")
    case None
    then show ?thesis by (simp add: observe_def Let_def)
  next
    case (Some a)
    have "emitEvent (Suc n) h s ev w =
          Set_forEach (Suc n) 0 (\<lambda>w'. sets w' a) ?f (observe (Emitted s ev) w)"
      using Some by (simp add: observe_def Let_def del: Set_forEach.simps)
    moreover have "Set_forEach (Suc n) 0 (\<lambda>w'. sets w' a) ?f (observe (Emitted s ev) w) \<noteq> Thrown x w'"
      by (rule forEach_never_throws) (rule f)
    ultimately show ?thesis by simp
  qed
qed

subsection \<open>The parts of a write\<close>

lemma emit_and_persist_fun:
  "(\<lambda>u w1. bind_outcome (emitEvent n h s (ChangeEvent (value' (resins w1 s)) old) w1)
              (\<lambda>u w2. Ret () (persist_value h s w2))) = (\<lambda>u. emit_and_persist n h s old)"
  by (intro ext) (simp add: emit_and_persist_def)

lemma report_error_fun:
  "(\<lambda>err w'. emitEvent n h s
       (ErrorEvent (createResinError (error_in_resin (options (resins w' s)))
                      (debugName_of (options (resins w' s))) err))
       (upd_resin s (\<lambda>r. r\<lparr>error := Some (createResinError (error_in_resin (options (resins w' s)))
                      (debugName_of (options (resins w' s))) err)\<rparr>) w')) = report_error n h s"
  by (intro ext) (simp add: report_error_def wrapped_def)

lemma notify_split:
  "\<not> disposed (resins w s) \<Longrightarrow>
   notify n h s old w = bind_outcome (run_subscribers n h s w) (\<lambda>u. emit_and_persist n h s old)"
  by (simp add: notify_def run_subscribers_def emit_and_persist_fun queue_all_def)

lemma set_value_passes:
  assumes live: "\<not> disposed (resins w s)"
    and new: "value' (resins w s) \<noteq> x"
    and tr: "transformValue (options (resins w s)) x = Inr t"
    and vd: "validateValue (options (resins w s)) x = Inr c" "valid c"
  shows "set_value n h s x w =
         catch_outcome
           (bind_outcome (run_subscribers n h s (stored s x w)) (\<lambda>u. emit_and_persist n h s t))
           (report_error n h s)"
proof -
  have "\<not> disposed (resins (stored s x w) s)" using live by (simp add: stored_def upd_resin_def)
  from notify_split [OF this, of n h t]
  have "notify n h s t (upd_resin s (\<lambda>r. r\<lparr>value' := x\<rparr>) w) =
        bind_outcome (run_subscribers n h s (stored s x w)) (\<lambda>u. emit_and_persist n h s t)"
    by (simp add: stored_def)
  then show ?thesis using live new tr vd
    by (simp add: set_value_def Let_def report_error_fun)
qed

lemma emit_and_persist_recording:
  assumes r: "recording h" and n: "length (handlers_of w s EvChange) < n"
  shows "emit_and_persist n h s old w =
         Ret () (persist_value h s
           (w\<lparr>trace := trace w @ announce s (ChangeEvent (value' (resins w s)) old) w\<rparr>))"
proof -
  have "length (handlers_of w s (typeOf (ChangeEvent (value' (resins w s)) old))) < n"
    using n by simp
  from emitEvent_recording [OF r this] show ?thesis
    by (simp add: emit_and_persist_def)
qed

lemma report_error_recording:
  assumes r: "recording h" and n: "length (handlers_of w s EvError) < n"
  shows "report_error n h s err w =
         Ret () (w\<lparr>resins := (resins w)(s := (resins w s)\<lparr>error := Some (wrapped w s err)\<rparr>),
                   trace := trace w @ announce s (ErrorEvent (wrapped w s err)) w\<rparr>)"
proof -
  let ?w = "upd_resin s (\<lambda>r. r\<lparr>error := Some (wrapped w s err)\<rparr>) w"
  have h: "handlers_of ?w s (typeOf (ErrorEvent (wrapped w s err))) = handlers_of w s EvError"
    by (simp add: handlers_of_def upd_resin_def split: option.splits)
  have a: "announce s (ErrorEvent (wrapped w s err)) ?w = announce s (ErrorEvent (wrapped w s err)) w"
    by (rule announce_cong) (simp_all add: upd_resin_def)
  have "emitEvent n h s (ErrorEvent (wrapped w s err)) ?w =
        Ret () (?w\<lparr>trace := trace ?w @ announce s (ErrorEvent (wrapped w s err)) ?w\<rparr>)"
    by (rule emitEvent_recording [OF r]) (use h n in simp)
  then have "report_error n h s err w =
        Ret () (?w\<lparr>trace := trace ?w @ announce s (ErrorEvent (wrapped w s err)) w\<rparr>)"
    by (simp only: a report_error_def)
  then show ?thesis by (simp add: upd_resin_def)
qed

lemma emit_and_persist_never_throws: "emit_and_persist n h s old w \<noteq> Thrown x w'"
  using emitEvent_never_throws [of n h s "ChangeEvent (value' (resins w s)) old" w]
  by (cases "emitEvent n h s (ChangeEvent (value' (resins w s)) old) w")
     (auto simp: emit_and_persist_def)

lemma catch_never_thrown: "(\<And>x w'. m \<noteq> Thrown x w') \<Longrightarrow> catch_outcome m f = m"
  by (cases m) auto

lemma stored_fields [simp]:
  "resins (stored s x w) = (resins w)(s := (resins w s)\<lparr>value' := x\<rparr>)"
  "trace (stored s x w) = trace w"
  "pendingEffects (stored s x w) = pendingEffects w"
  "batchDepth (stored s x w) = batchDepth w"
  "effectStack (stored s x w) = effectStack w"
  "sets (stored s x w) = sets w"
  by (simp_all add: stored_def upd_resin_def)

lemma run_subscribers_in_batch:
  "batchDepth w > 0 \<Longrightarrow>
   run_subscribers n h s w =
     Ret () (w\<lparr>pendingEffects := queue_all (subscribers (resins w s)) (pendingEffects w)\<rparr>)"
  by (simp add: run_subscribers_def)

lemma set_value_rejected:
  assumes r: "recording h"
    and live: "\<not> disposed (resins w s)"
    and new: "value' (resins w s) \<noteq> x"
    and tr: "transformValue (options (resins w s)) x = Inr t"
    and vd: "validateValue (options (resins w s)) x = Inr vd" "\<not> valid vd"
    and n: "length (handlers_of w s EvError) < n"
  shows "set_value n h s x w =
         Ret () (w\<lparr>trace := trace w @ announce s (ErrorEvent (Error (error_message vd))) w\<rparr>)"
  using live new tr vd
  by (simp add: set_value_def emitEvent_recording [OF r] n)

lemma set_value_transform_throws:
  assumes live: "\<not> disposed (resins w s)"
    and new: "value' (resins w s) \<noteq> x"
    and tr: "transformValue (options (resins w s)) x = Inl e"
  shows "set_value n h s x w = report_error n h s e w"
  using live new tr by (simp add: set_value_def Let_def report_error_fun)

lemma set_value_returns:
  assumes r: "recording h"
    and live: "\<not> disposed (resins w s)"
    and new: "value' (resins w s) \<noteq> x"
    and tr: "transformValue (options (resins w s)) x = Inr t"
    and vd: "validateValue (options (resins w s)) x = Inr c" "valid c"
    and phase: "run_subscribers n h s (stored s x w) = Ret () w1"
    and n: "length (handlers_of w1 s EvChange) < n"
  shows "set_value n h s x w =
         Ret () (persist_value h s
           (w1\<lparr>trace := trace w1 @ announce s (ChangeEvent (value' (resins w1 s)) t) w1\<rparr>))"
  using set_value_passes [OF live new tr vd, of n h] phase
    emit_and_persist_recording [OF r n, of t]
  by simp

lemma set_value_subscriber_throws:
  assumes live: "\<not> disposed (resins w s)"
    and new: "value' (resins w s) \<noteq> x"
    and tr: "transformValue (options (resins w s)) x = Inr t"
    and vd: "validateValue (options (resins w s)) x = Inr c" "valid c"
    and phase: "run_subscribers n h s (stored s x w) = Thrown err w1"
  shows "set_value n h s x w = report_error n h s err w1"
  using set_value_passes [OF live new tr vd, of n h] phase by simp

lemma set_value_after_subscribers:
  assumes live: "\<not> disposed (resins w s)"
    and new: "value' (resins w s) \<noteq> x"
    and tr: "transformValue (options (resins w s)) x = Inr t"
    and vd: "validateValue (options (resins w s)) x = Inr c" "valid c"
    and phase: "run_subscribers n h s (stored s x w) = Ret () w1"
  shows "set_value n h s x w = emit_and_persist n h s t w1"
  using set_value_passes [OF live new tr vd, of n h] phase
    catch_never_thrown [of "emit_and_persist n h s t w1", OF emit_and_persist_never_throws]
  by simp

lemma set_value_in_batch:
  assumes r: "recording h"
    and live: "\<not> disposed (resins w s)"
    and new: "value' (resins w s) \<noteq> x"
    and tr: "transformValue (options (resins w s)) x = Inr t"
    and vd: "validateValue (options (resins w s)) x = Inr c" "valid c"
    and depth: "batchDepth w > 0"
    and n: "length (handlers_of w s EvChange) < n"
  shows "\<exists>w'. set_value n h s x w = Ret () w' \<and>
           resins w' = (resins w)(s := (resins w s)\<lparr>value' := x\<rparr>) \<and>
           pendingEffects w' = queue_all (subscribers (resins w s)) (pendingEffects w) \<and>
           trace w' = trace w @ announce s (ChangeEvent x t) w \<and>
           batchDepth w' = batchDepth w \<and> sets w' = sets w \<and>
           effectStack w' = effectStack w"
proof -
  let ?w1 = "(stored s x w)\<lparr>pendingEffects :=
               queue_all (subscribers (resins (stored s x w) s)) (pendingEffects (stored s x w))\<rparr>"
  have phase: "run_subscribers n h s (stored s x w) = Ret () ?w1"
    by (rule run_subscribers_in_batch) (use depth in simp)
  have hl: "handlers_of ?w1 s EvChange = handlers_of w s EvChange"
    by (simp add: handlers_of_def split: option.splits)
  have a: "announce s (ChangeEvent x t) ?w1 = announce s (ChangeEvent x t) w"
    by (rule announce_cong) simp_all
  have v: "value' (resins ?w1 s) = x" by simp
  have "set_value n h s x w =
         Ret () (persist_value h s
           (?w1\<lparr>trace := trace ?w1 @ announce s (ChangeEvent (value' (resins ?w1 s)) t) ?w1\<rparr>))"
    by (rule set_value_returns [OF r live new tr vd phase]) (use hl n in simp)
  then have "set_value n h s x w =
         Ret () (persist_value h s (?w1\<lparr>trace := trace ?w1 @ announce s (ChangeEvent x t) w\<rparr>))"
    by (simp only: v a)
  then show ?thesis by simp
qed


subsection \<open>Calm calls\<close>

lemma calm_refl [simp]: "calm w w"
  by (simp add: calm_def)


lemma calm_same:
  "batchDepth w' = batchDepth w \<Longrightarrow> pendingEffects w' = pendingEffects w \<Longrightarrow> calm w w'"
  by (simp add: calm_def)

lemma keeps_simps [simp]:
  "keeps w (Ret x w') = calm w w'"
  "keeps w (Thrown e w') = calm w w'"
  "keeps w Timeout"
  by (simp_all add: keeps_def)
















lemma calm_handlers_lib_host: "calm_handlers h \<Longrightarrow> calm_handlers (lib_host n h)"
  by (simp add: calm_handlers_def lib_host_def)


lemma recording_lib_host: "recording h \<Longrightarrow> recording (lib_host n h)"
  by (simp add: recording_def lib_host_def)

subsection \<open>The flush of a batch\<close>


subsection \<open>The hosts of the concrete runs\<close>

lemma recording_recorder: "recording recorder"
  by (simp add: recording_def recorder_def)



section \<open>The claims\<close>

subsection \<open>C1: re-subscription of a computed resin\<close>

text \<open>
  C1 says that every re-execution of the recompute effect subscribes it to the
  resins read in that execution. In the run \<open>cond_scenario\<close> the effect (number 4) runs
  under \<^verbatim>\<open>watchEffect\<close> and once more when \<^verbatim>\<open>flag\<close> changes; that second run reads
  \<^verbatim>\<open>b\<close> for the first time (the computed value becomes 10), but \<^verbatim>\<open>b\<close> gets no
  subscriber, the write of 20 to \<^verbatim>\<open>b\<close> runs no effect, and the computed value stays 10.
\<close>

theorem conditional_dependency_counterexample:
  "cond_scenario = Some (Num 10, Num 10, [], [4, 4])"
  by code_simp

subsection \<open>C2: the value of a derivation\<close>

text \<open>
  C2 says that after a write to a source, the value read from the object that
  \<^verbatim>\<open>derive\<close> returned is \<^verbatim>\<open>compute\<close> of the current values of the sources. In the run
  \<open>derive_scenario\<close> the source holds 5 after the write and the recompute effect has
  run again (the resin inside the derivation holds 6), but the value read from the
  returned object is still 2, the value copied when the object was built.
\<close>

theorem derive_value_is_stale:
  "derive_scenario = Some (Num 2, Num 6, Num 5, [2, 2])"
  by code_simp

subsection \<open>C3: the flush at the exit of the outermost batch\<close>




subsection \<open>C4: the change event and the batch\<close>

text \<open>
  C4 says that every write that passes the identity check and the validation emits
  the \<^verbatim>\<open>change\<close> event during the write. In the run \<open>touchy_scenario\<close> the write of 1
  passes both, the value is stored, and outside a batch the subscriber (effect 1)
  throws: the setter catches the exception and emits an \<^verbatim>\<open>error\<close> event, and no
  \<^verbatim>\<open>change\<close> event. The same write with a batch open emits the \<^verbatim>\<open>change\<close> event.
\<close>

theorem throwing_subscriber_counterexample:
  "touchy_scenario =
     Some (Num 1,
           [Ran 1,
            Emitted 0 (ErrorEvent (ResinError ''Error in Resin'' None (Error ''boom''))),
            Handled 8 (ErrorEvent (ResinError ''Error in Resin'' None (Error ''boom'')))],
           [Emitted 0 (ChangeEvent (Num 1) (Num 1)), Handled 7 (ChangeEvent (Num 1) (Num 1))])"
  by code_simp

text \<open>
  C4, as amended: a write that passes the identity check and the validation while a
  batch is open stores the value, queues the subscribers, calls none of them and goes
  on to emit the \<^verbatim>\<open>change\<close> event before it returns; recording handlers are each called
  with the event. Outside a batch the subscribers are called first: when they all
  return, the write goes on to emit the \<^verbatim>\<open>change\<close> event; when one throws, the write
  emits an \<^verbatim>\<open>error\<close> event with the wrapped exception instead.
\<close>

theorem change_event_in_open_batch:
  assumes live: "\<not> disposed (resins w s)"
    and new: "value' (resins w s) \<noteq> x"
    and tr: "transformValue (options (resins w s)) x = Inr t"
    and vd: "validateValue (options (resins w s)) x = Inr c" "valid c"
  shows "(batchDepth w > 0 \<longrightarrow>
            set_value n h s x w =
              emit_and_persist n h s t
                ((stored s x w)\<lparr>pendingEffects :=
                   queue_all (subscribers (resins w s)) (pendingEffects w)\<rparr>)) \<and>
         (batchDepth w > 0 \<and> recording h \<and> length (handlers_of w s EvChange) < n \<longrightarrow>
            (\<exists>w'. set_value n h s x w = Ret () w' \<and>
                   trace w' = trace w @ announce s (ChangeEvent x t) w \<and>
                   emitted (announce s (ChangeEvent x t) w) = [(s, ChangeEvent x t)] \<and>
                   effects_run (announce s (ChangeEvent x t) w) = [] \<and>
                   value' (resins w' s) = x \<and>
                   batchDepth w' = batchDepth w \<and>
                   pendingEffects w' = queue_all (subscribers (resins w s)) (pendingEffects w) \<and>
                   (\<forall>e. Set_has (subscribers (resins w s)) e \<longrightarrow> Set_has (pendingEffects w') e))) \<and>
         (\<forall>w1. \<not> batchDepth w > 0 \<and> run_subscribers n h s (stored s x w) = Ret () w1 \<longrightarrow>
            set_value n h s x w = emit_and_persist n h s t w1) \<and>
         (\<forall>err w1. run_subscribers n h s (stored s x w) = Thrown err w1 \<longrightarrow>
            set_value n h s x w = report_error n h s err w1) \<and>
         (\<forall>err w1. run_subscribers n h s (stored s x w) = Thrown err w1 \<and> recording h \<and>
               length (handlers_of w1 s EvError) < n \<longrightarrow>
            set_value n h s x w =
              Ret () (w1\<lparr>resins := (resins w1)(s := (resins w1 s)\<lparr>error := Some (wrapped w1 s err)\<rparr>),
                        trace := trace w1 @ announce s (ErrorEvent (wrapped w1 s err)) w1\<rparr>))"
proof (intro conjI allI impI)
  assume d: "batchDepth w > 0"
  have "run_subscribers n h s (stored s x w) =
        Ret () ((stored s x w)\<lparr>pendingEffects :=
                  queue_all (subscribers (resins w s)) (pendingEffects w)\<rparr>)"
    using d by (simp add: run_subscribers_def)
  from set_value_after_subscribers [OF live new tr vd this]
  show "set_value n h s x w =
          emit_and_persist n h s t
            ((stored s x w)\<lparr>pendingEffects :=
               queue_all (subscribers (resins w s)) (pendingEffects w)\<rparr>)" .
next
  assume a: "batchDepth w > 0 \<and> recording h \<and> length (handlers_of w s EvChange) < n"
  then have d: "batchDepth w > 0" and r: "recording h"
    and f: "length (handlers_of w s EvChange) < n" by simp_all
  from set_value_in_batch [OF r live new tr vd d f]
  show "\<exists>w'. set_value n h s x w = Ret () w' \<and>
                   trace w' = trace w @ announce s (ChangeEvent x t) w \<and>
                   emitted (announce s (ChangeEvent x t) w) = [(s, ChangeEvent x t)] \<and>
                   effects_run (announce s (ChangeEvent x t) w) = [] \<and>
                   value' (resins w' s) = x \<and>
                   batchDepth w' = batchDepth w \<and>
                   pendingEffects w' = queue_all (subscribers (resins w s)) (pendingEffects w) \<and>
                   (\<forall>e. Set_has (subscribers (resins w s)) e \<longrightarrow> Set_has (pendingEffects w') e)"
    by (auto simp: Set_has_queue_all)
next
  fix w1
  assume "\<not> batchDepth w > 0 \<and> run_subscribers n h s (stored s x w) = Ret () w1"
  then have p: "run_subscribers n h s (stored s x w) = Ret () w1" by simp
  show "set_value n h s x w = emit_and_persist n h s t w1"
    by (rule set_value_after_subscribers [OF live new tr vd p])
next
  fix err w1
  assume p: "run_subscribers n h s (stored s x w) = Thrown err w1"
  show "set_value n h s x w = report_error n h s err w1"
    by (rule set_value_subscriber_throws [OF live new tr vd p])
next
  fix err w1
  assume a: "run_subscribers n h s (stored s x w) = Thrown err w1 \<and> recording h \<and>
             length (handlers_of w1 s EvError) < n"
  then have p: "run_subscribers n h s (stored s x w) = Thrown err w1" and r: "recording h"
    and f: "length (handlers_of w1 s EvError) < n" by simp_all
  show "set_value n h s x w =
          Ret () (w1\<lparr>resins := (resins w1)(s := (resins w1 s)\<lparr>error := Some (wrapped w1 s err)\<rparr>),
                    trace := trace w1 @ announce s (ErrorEvent (wrapped w1 s err)) w1\<rparr>)"
    using set_value_subscriber_throws [OF live new tr vd p] report_error_recording [OF r f]
    by simp
qed

theorem change_event_in_open_batch_witness:
  "\<exists>w'. set_value 9 (lib_host 9 recorder) 0 (Num 3) (counted_world\<lparr>batchDepth := 1\<rparr>) = Ret () w' \<and>
        trace w' = trace (counted_world\<lparr>batchDepth := 1\<rparr>) @
          [Emitted 0 (ChangeEvent (Num 3) (Num 8)), Handled 7 (ChangeEvent (Num 3) (Num 8))] \<and>
        value' (resins w' 0) = Num 3 \<and>
        Set_has (pendingEffects w') 2"
proof -
  let ?w = "counted_world\<lparr>batchDepth := 1\<rparr>"
  have 1: "\<not> disposed (resins ?w 0)" by code_simp
  have 2: "value' (resins ?w 0) \<noteq> Num 3" by code_simp
  have 3: "transformValue (options (resins ?w 0)) (Num 3) = Inr (Num 8)" by code_simp
  have 4: "validateValue (options (resins ?w 0)) (Num 3) = Inr (VObject True None)" by code_simp
  have 5: "valid (VObject True None)" by simp
  have 6: "recording (lib_host 9 recorder)"
    by (rule recording_lib_host [OF recording_recorder])
  have 7: "batchDepth ?w > 0" "length (handlers_of ?w 0 EvChange) < 9" by code_simp+
  have 8: "announce 0 (ChangeEvent (Num 3) (Num 8)) ?w =
           [Emitted 0 (ChangeEvent (Num 3) (Num 8)), Handled 7 (ChangeEvent (Num 3) (Num 8))]"
    by code_simp
  have 9: "Set_has (subscribers (resins ?w 0)) 2" by code_simp
  from change_event_in_open_batch [OF 1 2 3 4 5, of 9 "lib_host 9 recorder"] 6 7
  obtain w' where w': "set_value 9 (lib_host 9 recorder) 0 (Num 3) ?w = Ret () w'"
    "trace w' = trace ?w @ announce 0 (ChangeEvent (Num 3) (Num 8)) ?w"
    "value' (resins w' 0) = Num 3"
    "\<forall>e. Set_has (subscribers (resins ?w 0)) e \<longrightarrow> Set_has (pendingEffects w') e"
    by blast
  then show ?thesis using 8 9 by auto
qed

subsection \<open>C5: select and its cache\<close>

text \<open>
  C5 says that two calls of \<^verbatim>\<open>select\<close> with the same resin and the same path return the
  same computed resin. In the run \<open>select_scenario\<close> the two calls return the two
  different instances 3 and 5 (both hold the selected value 5): the cache is created
  anew by every call, so no call ever finds an entry.
\<close>

theorem select_is_not_memoized:
  "select_scenario = Some (3, 5, Num 5, Num 5)"
  by code_simp

subsection \<open>C6: a disposed resin\<close>

text \<open>
  C6 says that no read, write or subscription succeeds on a disposed resin. On
  the disposed resin of \<open>disposed_world\<close>, \<^verbatim>\<open>on('change', handler)\<close> returns and the
  handler is registered.
\<close>

theorem on_after_dispose_counterexample:
  "disposed (resins disposed_world 0) \<and>
   Set_has (handlers_of (on 0 EvChange 7 disposed_world) 0 EvChange) 7"
  by code_simp

text \<open>
  C6, as amended: on a disposed resin a read and a write each throw to the caller and
  change nothing, so subscribing an effect, which is done by reading, throws too;
  \<^verbatim>\<open>dispose\<close> and \<^verbatim>\<open>notify\<close> return without doing anything; \<^verbatim>\<open>on\<close> does not throw and
  registers the handler; and after each of these operations, and after an emission to
  quiet handlers, the resin is still disposed.
\<close>

theorem disposed_is_terminal:
  assumes d: "disposed (resins w s)"
  shows "get_value s w = Thrown (Error ''Attempted to access disposed resin'') w \<and>
         set_value n h s x w = Thrown (Error ''Attempted to modify disposed resin'') w \<and>
         (closures w e = Some (Watch (Get s)) \<longrightarrow>
            (\<exists>w'. subscribe (lib_host (Suc n) h) e w =
                     Thrown (Error ''Attempted to access disposed resin'') w' \<and>
                   resins w' = resins w)) \<and>
         dispose n h s w = Ret () w \<and>
         notify n h s old w = Ret () w \<and>
         disposed (resins (on s t handler w) s) \<and>
         Set_has (handlers_of (on s t handler w) s t) handler \<and>
         disposed (resins (off s t handler w) s) \<and>
         (quiet_handlers h \<and> length (handlers_of w s (typeOf ev)) < n \<longrightarrow>
            (\<exists>w'. emitEvent n h s ev w = Ret () w' \<and> disposed (resins w' s)))"
proof (intro conjI impI)
  show "get_value s w = Thrown (Error ''Attempted to access disposed resin'') w"
    using d by (simp add: get_value_def)
  show "set_value n h s x w = Thrown (Error ''Attempted to modify disposed resin'') w"
    using d by (simp add: set_value_def)
  show "dispose n h s w = Ret () w" using d by (simp add: dispose_def)
  show "notify n h s old w = Ret () w" using d by (simp add: notify_def)
  show "disposed (resins (on s t handler w) s)"
    using d by (simp add: on_def upd_resin_def Let_def split: option.splits)
  show "Set_has (handlers_of (on s t handler w) s t) handler"
    by (cases "eventHandlers (resins w s) t")
       (simp_all add: on_def upd_resin_def Let_def handlers_of_def Set_has_def Set_add_def)
  show "disposed (resins (off s t handler w) s)"
    using d by (simp add: off_def split: option.splits)
  show "\<exists>w'. emitEvent n h s ev w = Ret () w' \<and> disposed (resins w' s)"
    if "quiet_handlers h \<and> length (handlers_of w s (typeOf ev)) < n"
    using that d by (simp add: emitEvent_quiet)
  assume "closures w e = Some (Watch (Get s))"
  then show "\<exists>w'. subscribe (lib_host (Suc n) h) e w =
                     Thrown (Error ''Attempted to access disposed resin'') w' \<and>
                   resins w' = resins w"
    using d
    by (simp add: subscribe_def watchEffect_def invoke_def lib_host_def observe_def get_value_def)
qed

theorem disposed_is_terminal_witness:
  "disposed (resins disposed_world 0) \<and>
   get_value 0 disposed_world = Thrown (Error ''Attempted to access disposed resin'') disposed_world \<and>
   set_value 5 host0 0 (Num 1) disposed_world =
     Thrown (Error ''Attempted to modify disposed resin'') disposed_world \<and>
   dispose 5 host0 0 disposed_world = Ret () disposed_world"
proof -
  have 1: "disposed (resins disposed_world 0)" by code_simp
  from disposed_is_terminal [OF 1, where n = 5 and h = host0 and x = "Num 1"]
  show ?thesis using 1 by blast
qed

subsection \<open>C7: a write the validator rejects\<close>

text \<open>
  C7 says that a rejected write emits exactly one \<^verbatim>\<open>error\<close> event. In the run
  \<open>bad_handler_scenario\<close> the \<^verbatim>\<open>error\<close> handler throws when it is given the validation
  error: \<^verbatim>\<open>emitEvent\<close> catches the exception, stores it and emits a second \<^verbatim>\<open>error\<close>
  event that carries it.
\<close>

theorem throwing_error_handler_counterexample:
  "bad_handler_scenario =
     Some (Num 0,
           [Emitted 0 (ErrorEvent (Error ''bad'')), Handled 8 (ErrorEvent (Error ''bad'')),
            Emitted 0 (ErrorEvent (Error ''h'')), Handled 8 (ErrorEvent (Error ''h''))],
           Some (Error ''h''))"
  by code_simp

text \<open>
  C7, as amended: when the validator answers \<^verbatim>\<open>{valid: false, error: "bad"}\<close> to a value
  different from the current one and the handlers record their calls and return, the
  write returns without throwing, the stored value is unchanged, no effect is called
  or queued, and what the write adds to the trace is one \<^verbatim>\<open>error\<close> event followed by
  one call of each \<^verbatim>\<open>error\<close> handler; the event carries the error \<^verbatim>\<open>"bad"\<close> when the
  transforms do not throw. (A handler that throws causes a further \<^verbatim>\<open>error\<close> event, as
  in the run above.)
\<close>

theorem rejected_write_reports_one_error:
  assumes bad: "validateValue (options (resins w s)) x = Inr (VObject False (Some ''bad''))"
    and new: "value' (resins w s) \<noteq> x"
    and live: "\<not> disposed (resins w s)"
    and r: "recording h"
    and fuel: "length (handlers_of w s EvError) < n"
  shows "\<exists>w' err. set_value n h s x w = Ret () w' \<and>
           value' (resins w' s) = value' (resins w s) \<and>
           trace w' = trace w @ announce s (ErrorEvent err) w \<and>
           emitted (announce s (ErrorEvent err) w) = [(s, ErrorEvent err)] \<and>
           effects_run (announce s (ErrorEvent err) w) = [] \<and>
           pendingEffects w' = pendingEffects w \<and>
           (\<forall>t. transformValue (options (resins w s)) x = Inr t \<longrightarrow> err = Error ''bad'')"
proof -
  note vd = bad
  show ?thesis
  proof (cases "transformValue (options (resins w s)) x")
    case (Inr t)
    have "set_value n h s x w =
          Ret () (w\<lparr>trace := trace w @
             announce s (ErrorEvent (Error (error_message (VObject False (Some ''bad''))))) w\<rparr>)"
      by (rule set_value_rejected [OF r live new Inr vd _ fuel]) simp
    then show ?thesis using Inr by auto
  next
    case (Inl e)
    have "set_value n h s x w =
         Ret () (w\<lparr>resins := (resins w)(s := (resins w s)\<lparr>error := Some (wrapped w s e)\<rparr>),
                   trace := trace w @ announce s (ErrorEvent (wrapped w s e)) w\<rparr>)"
      using set_value_transform_throws [OF live new Inl] report_error_recording [OF r fuel]
      by simp
    then show ?thesis using Inl by auto
  qed
qed

theorem rejected_write_reports_one_error_witness:
  "\<exists>w'. set_value 9 recorder 0 (Num 1) counted_world = Ret () w' \<and>
        value' (resins w' 0) = Num 0 \<and>
        trace w' = trace counted_world @
          [Emitted 0 (ErrorEvent (Error ''bad'')), Handled 8 (ErrorEvent (Error ''bad''))]"
proof -
  let ?w = counted_world
  have 1: "validateValue (options (resins ?w 0)) (Num 1) = Inr (VObject False (Some ''bad''))"
    by code_simp
  have 2: "value' (resins ?w 0) \<noteq> Num 1" by code_simp
  have 3: "\<not> disposed (resins ?w 0)" by code_simp
  have 4: "length (handlers_of ?w 0 EvError) < 9" by code_simp
  have 5: "transformValue (options (resins ?w 0)) (Num 1) = Inr (Num 4)" by code_simp
  have 6: "value' (resins ?w 0) = Num 0" by code_simp
  have 7: "announce 0 (ErrorEvent (Error ''bad'')) ?w =
           [Emitted 0 (ErrorEvent (Error ''bad'')), Handled 8 (ErrorEvent (Error ''bad''))]"
    by code_simp
  from rejected_write_reports_one_error [OF 1 2 3 recording_recorder 4]
  show ?thesis using 5 6 7 by metis
qed

subsection \<open>C8: the transformed value is only reported\<close>



subsection \<open>C9: assignment to an index of an enhanced array\<close>

text \<open>
  C9 says that assigning to a numeric index performs the assignment and republishes a
  copy of the array. An assignment \<^verbatim>\<open>proxy[0] = v\<close> reaches the \<^verbatim>\<open>set\<close> trap with the
  key \<^verbatim>\<open>"0"\<close>, whose type is not \<^verbatim>\<open>'number'\<close>: the trap returns \<^verbatim>\<open>true\<close> and
  leaves the array and the resin as they were.
\<close>

theorem index_assignment_is_dropped:
  "array_set n h baseResin target (PString ''0'') v w = Ret True w"
  by (simp add: array_set_def typeof_key_def)

subsection \<open>C10: a watched function that throws\<close>



end
